theory Spec2Isabelle
  imports Main
begin

section \<open>The SSE server module of the ServiceNow MCP server\<close>

text \<open>
  A shallow embedding of \<^verbatim>\<open>src/servicenow_mcp/server_sse.py\<close>: the two endpoints
  built by \<^verbatim>\<open>create_starlette_app\<close> that have a body of their own
  (\<^verbatim>\<open>handle_root\<close>, \<^verbatim>\<open>handle_health\<close>) and the factory
  \<^verbatim>\<open>create_servicenow_mcp\<close>.

  The endpoint \<^verbatim>\<open>handle_sse\<close> and the mount of \<^verbatim>\<open>/messages/\<close> hand every
  request to an \<^verbatim>\<open>SseServerTransport\<close> imported from the \<^verbatim>\<open>mcp\<close> package:
  session identifiers, the session registry, the channels and the POST intake are that
  library's, and the module holds no code for them. They are therefore not embedded here.

  Python strings are modelled as \<^typ>\<open>string\<close>, read as UTF-8 bytes: the two
  characters of the pages outside ASCII are written byte by byte.
\<close>

subsection \<open>Responses\<close>

text \<open>
  \<^verbatim>\<open>HTMLResponse(content=..., status_code=...)\<close> and
  \<^verbatim>\<open>JSONResponse(content=..., status_code=...)\<close>: a body and a status code. The
  constructors render the body when they are called. \<^verbatim>\<open>HTMLResponse\<close> encodes its
  text, which here is a literal of the module or the text of a file decoded as UTF-8,
  and is taken as the plain record constructor; the rendering of \<^verbatim>\<open>JSONResponse\<close>,
  whose body holds values of the environment, is modelled with the health endpoint.
\<close>

record 'a response =
  content :: 'a
  status_code :: nat

type_synonym HTMLResponse = "string response"

subsection \<open>The root endpoint\<close>

text \<open>
  What a statement of the \<^verbatim>\<open>try\<close> block of \<^verbatim>\<open>handle_root\<close> can raise, by the
  handler that receives it, in the order of the \<^verbatim>\<open>except\<close> clauses:
  \<^item> \<open>FileNotFoundError\<close>: caught by \<^verbatim>\<open>except FileNotFoundError\<close>;
  \<^item> \<open>OtherException s\<close>: any other instance of \<^verbatim>\<open>Exception\<close>, with \<^verbatim>\<open>str(e) = s\<close>
    (a permission error, a directory in place of the file, bytes that are not UTF-8),
    caught by \<^verbatim>\<open>except Exception as e\<close>;
  \<^item> \<open>NotAnException\<close>: a \<^verbatim>\<open>BaseException\<close> that is no \<^verbatim>\<open>Exception\<close> (a cancelled
    task, a keyboard interrupt), which no clause catches.
\<close>

datatype raised = FileNotFoundError | OtherException string | NotAnException

definition fallback_html :: string where
  \<open>fallback_html = concat
    [''\<newline>'',
     ''            <!DOCTYPE html>\<newline>'',
     ''            <html>\<newline>'',
     ''            <head>\<newline>'',
     ''                <title>ServiceNow MCP Server</title>\<newline>'',
     ''                <style>\<newline>'',
     ''                    body { font-family: Arial, sans-serif; margin: 40px; background: #f5f5f5; }\<newline>'',
     ''                    .container { max-width: 600px; margin: 0 auto; background: white; padding: 30px; border-radius: 8px; }\<newline>'',
     ''                    h1 { color: #e74c3c; }\<newline>'',
     ''                </style>\<newline>'',
     ''            </head>\<newline>'',
     ''            <body>\<newline>'',
     ''                <div class="container">\<newline>'',
     ''                    <h1>'' @ [CHR 0xE2, CHR 0x9A, CHR 0xA0, CHR 0xEF, CHR 0xB8, CHR 0x8F] @ '' ServiceNow MCP Server</h1>\<newline>'',
     ''                    <p>API documentation template not found. Server is running but documentation is unavailable.</p>\<newline>'',
     ''                    <p>Available endpoints:</p>\<newline>'',
     ''                    <ul>\<newline>'',
     ''                        <li><strong>GET /health</strong> - Health check</li>\<newline>'',
     ''                        <li><strong>GET /sse</strong> - MCP SSE endpoint</li>\<newline>'',
     ''                        <li><strong>POST /messages/</strong> - MCP messages</li>\<newline>'',
     ''                    </ul>\<newline>'',
     ''                </div>\<newline>'',
     ''            </body>\<newline>'',
     ''            </html>\<newline>'',
     ''            '']\<close>

definition error_html :: "string \<Rightarrow> string" where
  \<open>error_html str_e = concat
    [''\<newline>'',
     ''            <!DOCTYPE html>\<newline>'',
     ''            <html>\<newline>'',
     ''            <head>\<newline>'',
     ''                <title>ServiceNow MCP Server - Error</title>\<newline>'',
     ''                <style>\<newline>'',
     ''                    body { font-family: Arial, sans-serif; margin: 40px; background: #f5f5f5; }\<newline>'',
     ''                    .container { max-width: 600px; margin: 0 auto; background: white; padding: 30px; border-radius: 8px; }\<newline>'',
     ''                    h1 { color: #e74c3c; }\<newline>'',
     ''                </style>\<newline>'',
     ''            </head>\<newline>'',
     ''            <body>\<newline>'',
     ''                <div class="container">\<newline>'',
     ''                    <h1>'' @ [CHR 0xE2, CHR 0x9D, CHR 0x8C] @ '' ServiceNow MCP Server - Error</h1>\<newline>'',
     ''                    <p>Error loading documentation: '' @ str_e @ ''</p>\<newline>'',
     ''                    <p>Server is running but documentation display failed.</p>\<newline>'',
     ''                </div>\<newline>'',
     ''            </body>\<newline>'',
     ''            </html>\<newline>'',
     ''            '']\<close>

text \<open>
  \<^verbatim>\<open>handle_root\<close> ignores its request. Its argument here is the outcome of lines 45 to
  50, opening and reading \<^verbatim>\<open>static/index.html\<close> beside the module: \<open>Inr\<close> the text of
  the file, \<open>Inl\<close> what was raised. An exception that no clause catches leaves the
  handler, so the result is a sum as well.
\<close>

definition handle_root :: "raised + string \<Rightarrow> raised + HTMLResponse" where
  "handle_root read_index =
     (case read_index of
        Inr html_content \<Rightarrow> Inr \<lparr>content = html_content, status_code = 200\<rparr>
      | Inl FileNotFoundError \<Rightarrow> Inr \<lparr>content = fallback_html, status_code = 200\<rparr>
      | Inl (OtherException str_e) \<Rightarrow> Inr \<lparr>content = error_html str_e, status_code = 500\<rparr>
      | Inl NotAnException \<Rightarrow> Inl NotAnException)"

subsection \<open>The health endpoint\<close>



text \<open>
  \<^verbatim>\<open>str.lower\<close> on the ASCII letters. Bytes from 128 on are left alone: the lower-case
  form of a character outside ASCII is again outside ASCII but for the Kelvin sign
  (\<open>k\<close>) and the dotted capital I (\<open>i\<close> and a combining dot), so the comparison
  with \<^verbatim>\<open>"true"\<close>, the only use of \<^verbatim>\<open>lower\<close> in the module, is not affected.
\<close>

definition lower_char :: "char \<Rightarrow> char" where
  "lower_char c =
     (let n = (of_char c :: nat) in if 65 \<le> n \<and> n \<le> 90 then char_of (n + 32) else c)"

definition str_lower :: "string \<Rightarrow> string" where
  "str_lower s = map lower_char s"







text \<open>
  The values of the environment are the bytes the process was given. On a POSIX system
  \<^verbatim>\<open>os.getenv\<close> decodes them as UTF-8 with the \<^verbatim>\<open>surrogateescape\<close> handler, so
  every byte sequence is a string, and a byte that is not part of well-formed UTF-8 is
  kept as a lone surrogate. Encoding the string as UTF-8 again gives the bytes back when
  they are well-formed UTF-8 and raises \<^verbatim>\<open>UnicodeEncodeError\<close> otherwise.
  \<open>utf8_valid\<close> is that test: the well-formed byte sequences of the UTF-8 encoding
  (no overlong form, no encoded surrogate, nothing above U+10FFFF).
\<close>

definition continuation :: "nat \<Rightarrow> bool" where
  "continuation b = (128 \<le> b \<and> b \<le> 191)"

fun utf8_valid_bytes :: "nat list \<Rightarrow> bool" where
  "utf8_valid_bytes [] = True"
| "utf8_valid_bytes (b0 # bs) =
     (if b0 < 128 then utf8_valid_bytes bs
      else if 194 \<le> b0 \<and> b0 \<le> 223 then
        (case bs of
           b1 # r \<Rightarrow> continuation b1 \<and> utf8_valid_bytes r
         | _ \<Rightarrow> False)
      else if 224 \<le> b0 \<and> b0 \<le> 239 then
        (case bs of
           b1 # b2 # r \<Rightarrow>
             (if b0 = 224 then 160 \<le> b1 \<and> b1 \<le> 191
              else if b0 = 237 then 128 \<le> b1 \<and> b1 \<le> 159
              else continuation b1) \<and>
             continuation b2 \<and> utf8_valid_bytes r
         | _ \<Rightarrow> False)
      else if 240 \<le> b0 \<and> b0 \<le> 244 then
        (case bs of
           b1 # b2 # b3 # r \<Rightarrow>
             (if b0 = 240 then 144 \<le> b1 \<and> b1 \<le> 191
              else if b0 = 244 then 128 \<le> b1 \<and> b1 \<le> 143
              else continuation b1) \<and>
             continuation b2 \<and> continuation b3 \<and> utf8_valid_bytes r
         | _ \<Rightarrow> False)
      else False)"

definition utf8_valid :: "string \<Rightarrow> bool" where
  "utf8_valid s = utf8_valid_bytes (map of_char s)"






subsection \<open>The factory\<close>

text \<open>
  Modelled from the spec: the declarations of \<^verbatim>\<open>AuthType\<close>, \<^verbatim>\<open>BasicAuthConfig\<close>,
  \<^verbatim>\<open>AuthConfig\<close> and \<^verbatim>\<open>ServerConfig\<close> (module \<^verbatim>\<open>servicenow_mcp.utils.config\<close>)
  and of the base class \<^verbatim>\<open>ServiceNowMCP\<close> (module \<^verbatim>\<open>servicenow_mcp.server\<close>) are
  missing. The specification names them only as authentication-config construction, so
  each record has the fields that the constructor calls of \<^verbatim>\<open>create_servicenow_mcp\<close>
  pass, under the keywords of those calls. Of the enumeration \<^verbatim>\<open>AuthType\<close> the module
  names the member \<^verbatim>\<open>BASIC\<close>; any other member is \<open>OtherAuthType\<close> with its name.
  Of a server, the configuration handed to the initialiser is kept.
\<close>

datatype AuthType = BASIC | OtherAuthType string

record BasicAuthConfig =
  username :: string
  password :: string

record AuthConfig =
  type :: AuthType
  basic :: "BasicAuthConfig option"

record ServerConfig =
  instance_url :: string
  auth :: AuthConfig

record ServiceNowSSEMCP =
  config :: ServerConfig

definition create_servicenow_mcp :: "string \<Rightarrow> string \<Rightarrow> string \<Rightarrow> ServiceNowSSEMCP" where
  "create_servicenow_mcp url usr pwd =
     (let auth_config = \<lparr>type = BASIC, basic = Some \<lparr>username = usr, password = pwd\<rparr>\<rparr>;
          cfg = \<lparr>instance_url = url, auth = auth_config\<rparr>
      in \<lparr>config = cfg\<rparr>)"

section \<open>Properties\<close>

subsection \<open>Lowering a setting\<close>

lemma str_lower_examples:
  "str_lower ''TRUE'' = ''true'' \<and> str_lower ''True'' = ''true'' \<and> str_lower ''false'' = ''false''"
  by code_simp

subsection \<open>Encoding the body of a response\<close>

lemma utf8_valid_examples:
  "utf8_valid ''INFO'' \<and> utf8_valid [CHR 0xC3, CHR 0xA9] \<and> \<not> utf8_valid [CHR 0xFF] \<and>
   \<not> utf8_valid [CHR 0xC3] \<and> \<not> utf8_valid [CHR 0xED, CHR 0xA0, CHR 0x80]"
  by code_simp





subsection \<open>The root endpoint\<close>

text \<open>
  Claim C8. \<^verbatim>\<open>handle_root\<close> answers with status 200 and the text of the file when
  \<^verbatim>\<open>index.html\<close> is read, and with status 200 and the fallback page when opening it
  raises \<^verbatim>\<open>FileNotFoundError\<close>. It answers with status 500 exactly when something
  else that is an \<^verbatim>\<open>Exception\<close> was raised: never on a successful read, never on
  a missing file, and not when the exception escapes the handler.
\<close>

theorem handle_root_status:
  "handle_root (Inr html) = Inr \<lparr>content = html, status_code = 200\<rparr> \<and>
   handle_root (Inl FileNotFoundError) = Inr \<lparr>content = fallback_html, status_code = 200\<rparr> \<and>
   ((\<exists>r. handle_root x = Inr r \<and> status_code r = 500) =
      (\<exists>str_e. x = Inl (OtherException str_e)))"
proof -
  have ok: "handle_root (Inr html) = Inr \<lparr>content = html, status_code = 200\<rparr>"
    by (simp add: handle_root_def)
  have missing:
    "handle_root (Inl FileNotFoundError) = Inr \<lparr>content = fallback_html, status_code = 200\<rparr>"
    by (simp add: handle_root_def)
  have only: "(\<exists>r. handle_root x = Inr r \<and> status_code r = 500) =
      (\<exists>str_e. x = Inl (OtherException str_e))"
  proof (cases x)
    case (Inl e)
    then show ?thesis by (cases e) (simp_all add: handle_root_def)
  next
    case (Inr html')
    then show ?thesis by (simp add: handle_root_def)
  qed
  from ok missing only show ?thesis by blast
qed

text \<open>A permission error on the file is answered with status 500.\<close>

theorem handle_root_status_witness:
  "\<exists>r. handle_root (Inl (OtherException ''[Errno 13] Permission denied'')) = Inr r \<and>
        status_code r = 500"
  using handle_root_status [of "[]" "Inl (OtherException ''[Errno 13] Permission denied'')"]
  by blast

subsection \<open>The health endpoint\<close>




subsection \<open>The factory\<close>

text \<open>
  Claim C10. For every instance URL, user name and password, the server that
  \<^verbatim>\<open>create_servicenow_mcp\<close> returns is configured with the given instance URL and with
  authentication of type \<^verbatim>\<open>BASIC\<close> carrying exactly the given user name and password;
  the type is never another member of the enumeration.
\<close>

theorem create_servicenow_mcp_basic:
  "instance_url (config (create_servicenow_mcp url usr pwd)) = url \<and>
   type (auth (config (create_servicenow_mcp url usr pwd))) = BASIC \<and>
   (\<forall>other. type (auth (config (create_servicenow_mcp url usr pwd))) \<noteq> OtherAuthType other) \<and>
   basic (auth (config (create_servicenow_mcp url usr pwd))) =
     Some \<lparr>username = usr, password = pwd\<rparr>"
  by (simp add: create_servicenow_mcp_def Let_def)

text \<open>The call of the docstring of \<^verbatim>\<open>create_servicenow_mcp\<close>.\<close>

theorem create_servicenow_mcp_basic_witness:
  "instance_url (config (create_servicenow_mcp
      ''https://instance.service-now.com'' ''admin'' ''password'')) =
     ''https://instance.service-now.com'' \<and>
   type (auth (config (create_servicenow_mcp
      ''https://instance.service-now.com'' ''admin'' ''password''))) = BASIC \<and>
   basic (auth (config (create_servicenow_mcp
      ''https://instance.service-now.com'' ''admin'' ''password''))) =
     Some \<lparr>username = ''admin'', password = ''password''\<rparr>"
  using create_servicenow_mcp_basic
    [of "''https://instance.service-now.com''" "''admin''" "''password''"]
  by simp

end
